theory Spec2Isabelle
  imports Main
begin

section \<open>The command-line converter \<^verbatim>\<open>scripts/docx-to-html.mjs\<close>\<close>

text \<open>
  The script parses its arguments into an options object, derives an output path when
  none is given, reads the document package, hands it to the renderer
  (\<^verbatim>\<open>docxPreview.renderAsync\<close>), assembles an HTML page and writes it with one
  \<^verbatim>\<open>writeFileSync\<close>. The model starts at the line \<^verbatim>\<open>// Main\<close>, that is, after the
  module-level set-up of the DOM globals and the import of the renderer have succeeded.

  Strings are byte lists holding the UTF-8 form of the JavaScript string. Every string
  operation of the script compares with ASCII text only (\<^verbatim>\<open>===\<close> against a flag,
  \<^verbatim>\<open>startsWith('-')\<close>, \<^verbatim>\<open>split('=')\<close>, the pattern \<^verbatim>\<open>/\.docx$/i\<close>), and an ASCII byte
  never occurs inside the encoding of another character, so these operations act on the
  bytes as they act on the UTF-16 code units.
\<close>

subsection \<open>JavaScript values and string primitives\<close>

text \<open>
  A property that may hold \<^verbatim>\<open>null\<close> or \<^verbatim>\<open>undefined\<close> is an \<open>option\<close>; \<open>None\<close> stands
  for both (the script never tells them apart). \<^verbatim>\<open>!v\<close> is true for \<^verbatim>\<open>null\<close>,
  \<^verbatim>\<open>undefined\<close> and the empty string.
\<close>

definition falsy :: "string option \<Rightarrow> bool" where
  "falsy v = (case v of None \<Rightarrow> True | Some s \<Rightarrow> s = [])"

text \<open>\<^verbatim>\<open>s.startsWith(p)\<close>.\<close>

definition startsWith :: "string \<Rightarrow> string \<Rightarrow> bool" where
  "startsWith s p = (take (length p) s = p)"

text \<open>\<^verbatim>\<open>s.split(sep)\<close> for a separator of one character: never an empty array.\<close>

fun split :: "char \<Rightarrow> string \<Rightarrow> string list" where
  "split sep [] = [[]]"
| "split sep (c # cs) =
     (if c = sep then [] # split sep cs
      else (case split sep cs of
              [] \<Rightarrow> [[c]]
            | w # ws \<Rightarrow> (c # w) # ws))"

text \<open>\<^verbatim>\<open>xs[i]\<close>: reading an array out of range gives \<^verbatim>\<open>undefined\<close>.\<close>

definition index :: "'a list \<Rightarrow> nat \<Rightarrow> 'a option" where
  "index xs i = (if i < length xs then Some (xs ! i) else None)"

text \<open>
  Case-insensitive matching (flag \<^verbatim>\<open>i\<close>, no flag \<^verbatim>\<open>u\<close>) compares the upper-case
  forms of the two characters, and a character outside ASCII is never identified with
  an ASCII one. On the bytes of a UTF-8 string only the letters a to z change.
\<close>

definition canonicalize :: "char \<Rightarrow> char" where
  "canonicalize c =
     (case map_of (zip ''abcdefghijklmnopqrstuvwxyz'' ''ABCDEFGHIJKLMNOPQRSTUVWXYZ'') c of
        None \<Rightarrow> c
      | Some u \<Rightarrow> u)"

text \<open>
  A pattern of literal characters followed by \<^verbatim>\<open>$\<close>, tried at the head of \<open>s\<close>:
  the characters must match one by one and the input must end there.
\<close>

fun match_to_end :: "string \<Rightarrow> string \<Rightarrow> bool" where
  "match_to_end [] s = (s = [])"
| "match_to_end (p # ps) [] = False"
| "match_to_end (p # ps) (c # cs) =
     (canonicalize p = canonicalize c \<and> match_to_end ps cs)"

text \<open>
  \<^verbatim>\<open>s.replace(/pat$/i, rep)\<close> for a literal \<open>pat\<close> and a replacement without \<^verbatim>\<open>$\<close>:
  the start positions are tried from the left, the first match is replaced, and a string
  with no match is returned as it is.
\<close>

fun replace_at_end :: "string \<Rightarrow> string \<Rightarrow> string \<Rightarrow> string" where
  "replace_at_end pat rep [] = (if match_to_end pat [] then rep else [])"
| "replace_at_end pat rep (c # cs) =
     (if match_to_end pat (c # cs) then rep else c # replace_at_end pat rep cs)"

subsection \<open>The options object\<close>

text \<open>
  \<open>className\<close> is assigned \<^verbatim>\<open>arg.split('=')[1]\<close>, an array read, so its type admits
  \<^verbatim>\<open>undefined\<close>; all other renderer options only ever receive boolean literals.
\<close>

record docxOptions =
  inWrapper :: bool
  hideWrapperOnPrint :: bool
  ignoreWidth :: bool
  ignoreHeight :: bool
  ignoreFonts :: bool
  breakPages :: bool
  debug :: bool
  experimental :: bool
  className :: "string option"
  trimXmlDeclaration :: bool
  ignoreLastRenderedPageBreak :: bool
  renderHeaders :: bool
  renderFooters :: bool
  renderFootnotes :: bool
  renderEndnotes :: bool
  useBase64URL :: bool
  renderChanges :: bool
  renderComments :: bool
  renderAltChunks :: bool

record options =
  input :: "string option"
  "output" :: "string option"
  bodyOnly :: bool
  docxOptions :: docxOptions

text \<open>The object literal that \<^verbatim>\<open>parseArgs\<close> builds afresh on every call.\<close>

definition initial_options :: options where
  "initial_options =
     \<lparr> input = None,
       output = None,
       bodyOnly = False,
       docxOptions =
         \<lparr> inWrapper = True,
           hideWrapperOnPrint = False,
           ignoreWidth = False,
           ignoreHeight = False,
           ignoreFonts = False,
           breakPages = True,
           debug = False,
           experimental = False,
           className = Some ''docx'',
           trimXmlDeclaration = True,
           ignoreLastRenderedPageBreak = True,
           renderHeaders = True,
           renderFooters = True,
           renderFootnotes = True,
           renderEndnotes = True,
           useBase64URL = True,
           renderChanges = False,
           renderComments = False,
           renderAltChunks = True \<rparr> \<rparr>"

subsection \<open>Console output and process exit\<close>

text \<open>One call of \<^verbatim>\<open>console.log\<close> or \<^verbatim>\<open>console.error\<close>, with its arguments.\<close>

datatype console = ConsoleLog "string list" | ConsoleError "string list"

text \<open>The text printed by \<^verbatim>\<open>printHelp\<close>, line by line.\<close>

definition help_lines :: "string list" where
  \<open>help_lines =
   ['''',
    ''DOCX to HTML Converter'',
    '''',
    ''Usage: node scripts/docx-to-html.mjs <input.docx> [output.html] [options]'',
    '''',
    ''Arguments:'',
    ''  input.docx              Input DOCX file (required)'',
    ''  output.html             Output HTML file (default: input with .html extension)'',
    '''',
    ''Layout Options:'',
    ''  --no-wrapper            Don't wrap content in container div'',
    ''  --hide-wrapper-print    Hide wrapper when printing'',
    ''  --ignore-width          Ignore page width (fluid layout)'',
    ''  --ignore-height         Ignore page height'',
    ''  --no-break-pages        Don't break on page breaks'',
    ''  --render-page-breaks    Respect lastRenderedPageBreak elements'',
    '''',
    ''Content Options:'',
    ''  --no-headers            Don't render headers'',
    ''  --no-footers            Don't render footers'',
    ''  --no-footnotes          Don't render footnotes'',
    ''  --no-endnotes           Don't render endnotes'',
    ''  --no-alt-chunks         Don't render embedded HTML parts'',
    ''  --render-changes        Show tracked changes (insertions/deletions)'',
    ''  --render-comments       Show comments (experimental)'',
    '''',
    ''Style Options:'',
    ''  --ignore-fonts          Don't render embedded fonts'',
    ''  --class-name=NAME       CSS class prefix (default: "docx")'',
    '''',
    ''Output Options:'',
    ''  --body-only             Output only body content (no <html> wrapper)'',
    ''  --base64                Use base64 URLs for images'',
    '''',
    ''Debug Options:'',
    ''  --debug                 Enable debug logging'',
    ''  --experimental          Enable experimental features (tab stops)'',
    ''  --no-trim-xml           Keep XML declaration in output'',
    '''',
    ''Other:'',
    ''  --help, -h              Show this help'',
    '''',
    ''Examples:'',
    ''  # Basic conversion'',
    ''  node scripts/docx-to-html.mjs document.docx'',
    '''',
    ''  # Fluid width, no page breaks'',
    ''  node scripts/docx-to-html.mjs doc.docx out.html --ignore-width --no-break-pages'',
    '''',
    ''  # Show tracked changes'',
    ''  node scripts/docx-to-html.mjs doc.docx --render-changes'',
    '''',
    ''  # Minimal output (no headers/footers, body only)'',
    ''  node scripts/docx-to-html.mjs doc.docx --no-headers --no-footers --body-only'',
    '''']\<close>

text \<open>Lines joined by line feeds, as the template literal holds them.\<close>

fun join_lines :: "string list \<Rightarrow> string" where
  "join_lines [] = []"
| "join_lines [l] = l"
| "join_lines (l # ls) = l @ [CHR 0x0A] @ join_lines ls"

definition printHelp :: "console list" where
  "printHelp = [ConsoleLog [join_lines help_lines]]"

subsection \<open>\<^verbatim>\<open>parseArgs\<close>\<close>

text \<open>
  \<^verbatim>\<open>parseArgs\<close> either returns the options or ends the process through
  \<^verbatim>\<open>process.exit\<close>; it prints only on the paths that exit.
\<close>

datatype parsed = Exit "console list" nat | Return options

text \<open>The body of the \<^verbatim>\<open>for\<close> loop: one argument, the branches in source order.\<close>

definition parseArg :: "options \<Rightarrow> string \<Rightarrow> parsed" where
  "parseArg opts arg =
    (if arg = ''--help'' \<or> arg = ''-h'' then Exit printHelp 0
     else if arg = ''--no-wrapper'' then
       Return (opts\<lparr>docxOptions := (docxOptions opts)\<lparr>inWrapper := False\<rparr>\<rparr>)
     else if arg = ''--hide-wrapper-print'' then
       Return (opts\<lparr>docxOptions := (docxOptions opts)\<lparr>hideWrapperOnPrint := True\<rparr>\<rparr>)
     else if arg = ''--ignore-width'' then
       Return (opts\<lparr>docxOptions := (docxOptions opts)\<lparr>ignoreWidth := True\<rparr>\<rparr>)
     else if arg = ''--ignore-height'' then
       Return (opts\<lparr>docxOptions := (docxOptions opts)\<lparr>ignoreHeight := True\<rparr>\<rparr>)
     else if arg = ''--ignore-fonts'' then
       Return (opts\<lparr>docxOptions := (docxOptions opts)\<lparr>ignoreFonts := True\<rparr>\<rparr>)
     else if arg = ''--no-break-pages'' then
       Return (opts\<lparr>docxOptions := (docxOptions opts)\<lparr>breakPages := False\<rparr>\<rparr>)
     else if arg = ''--debug'' then
       Return (opts\<lparr>docxOptions := (docxOptions opts)\<lparr>debug := True\<rparr>\<rparr>)
     else if arg = ''--experimental'' then
       Return (opts\<lparr>docxOptions := (docxOptions opts)\<lparr>experimental := True\<rparr>\<rparr>)
     else if startsWith arg ''--class-name='' then
       Return (opts\<lparr>docxOptions :=
                 (docxOptions opts)\<lparr>className := index (split (CHR ''='') arg) 1\<rparr>\<rparr>)
     else if arg = ''--no-trim-xml'' then
       Return (opts\<lparr>docxOptions := (docxOptions opts)\<lparr>trimXmlDeclaration := False\<rparr>\<rparr>)
     else if arg = ''--render-page-breaks'' then
       Return (opts\<lparr>docxOptions :=
                 (docxOptions opts)\<lparr>ignoreLastRenderedPageBreak := False\<rparr>\<rparr>)
     else if arg = ''--base64'' then
       Return (opts\<lparr>docxOptions := (docxOptions opts)\<lparr>useBase64URL := True\<rparr>\<rparr>)
     else if arg = ''--render-changes'' then
       Return (opts\<lparr>docxOptions := (docxOptions opts)\<lparr>renderChanges := True\<rparr>\<rparr>)
     else if arg = ''--render-comments'' then
       Return (opts\<lparr>docxOptions := (docxOptions opts)\<lparr>renderComments := True\<rparr>\<rparr>)
     else if arg = ''--no-alt-chunks'' then
       Return (opts\<lparr>docxOptions := (docxOptions opts)\<lparr>renderAltChunks := False\<rparr>\<rparr>)
     else if arg = ''--no-headers'' then
       Return (opts\<lparr>docxOptions := (docxOptions opts)\<lparr>renderHeaders := False\<rparr>\<rparr>)
     else if arg = ''--no-footers'' then
       Return (opts\<lparr>docxOptions := (docxOptions opts)\<lparr>renderFooters := False\<rparr>\<rparr>)
     else if arg = ''--no-footnotes'' then
       Return (opts\<lparr>docxOptions := (docxOptions opts)\<lparr>renderFootnotes := False\<rparr>\<rparr>)
     else if arg = ''--no-endnotes'' then
       Return (opts\<lparr>docxOptions := (docxOptions opts)\<lparr>renderEndnotes := False\<rparr>\<rparr>)
     else if arg = ''--body-only'' then
       Return (opts\<lparr>bodyOnly := True\<rparr>)
     else if \<not> startsWith arg ''-'' then
       (if falsy (input opts) then Return (opts\<lparr>input := Some arg\<rparr>)
        else if falsy (output opts) then Return (opts\<lparr>output := Some arg\<rparr>)
        else Return opts)
     else Exit [ConsoleError [''Unknown option: '' @ arg]] 1)"

text \<open>The loop over the arguments; an exit ends it.\<close>

fun parseArgs_loop :: "options \<Rightarrow> string list \<Rightarrow> parsed" where
  "parseArgs_loop opts [] = Return opts"
| "parseArgs_loop opts (arg # args) =
     (case parseArg opts arg of
        Exit out code \<Rightarrow> Exit out code
      | Return opts' \<Rightarrow> parseArgs_loop opts' args)"

definition parseArgs :: "string list \<Rightarrow> parsed" where
  "parseArgs args = parseArgs_loop initial_options args"

subsection \<open>The runtime the script calls into\<close>

text \<open>A thrown or rejected error object: \<^verbatim>\<open>err.message\<close> and \<^verbatim>\<open>err.stack\<close>.\<close>

record js_error =
  message :: string
  stack :: string

text \<open>The state a promise ends in; \<open>Pending\<close> is a promise that never settles.\<close>

datatype 'a promise = Resolved 'a | Rejected js_error | Pending

text \<open>The files that can be read, by path, with their contents.\<close>

type_synonym filesystem = "string \<rightharpoonup> string"

text \<open>
  What the script does not define itself is a parameter of the model:
  \<^item> \<open>read_error\<close>: the error \<^verbatim>\<open>readFileSync\<close> throws for a path it cannot read;
  \<^item> \<open>write_error\<close>: the error \<^verbatim>\<open>writeFileSync\<close> throws for a path it cannot write
    (\<open>None\<close>: the write succeeds);
  \<^item> \<open>renderAsync\<close>: the renderer imported from \<^verbatim>\<open>../dist/docx-preview.mjs\<close>, from the
    package bytes and the options to the \<^verbatim>\<open>innerHTML\<close> of the style container and of
    the content container once its promise resolves;
  \<^item> \<open>basename\<close>: \<^verbatim>\<open>path.basename(path, suffix)\<close>;
  \<^item> \<open>JSON_stringify\<close>: \<^verbatim>\<open>JSON.stringify(v, null, 2)\<close> on the renderer options.
\<close>

record environment =
  read_error :: "string \<Rightarrow> js_error"
  write_error :: "string \<Rightarrow> js_error option"
  renderAsync :: "string \<Rightarrow> docxOptions \<Rightarrow> (string \<times> string) promise"
  basename :: "string \<Rightarrow> string \<Rightarrow> string"
  JSON_stringify :: "docxOptions \<Rightarrow> string"

definition readFileSync :: "environment \<Rightarrow> filesystem \<Rightarrow> string \<Rightarrow> js_error + string" where
  "readFileSync env fs path =
     (case fs path of None \<Rightarrow> Inl (read_error env path) | Some bytes \<Rightarrow> Inr bytes)"

text \<open>A write that throws is taken to leave the files as they were.\<close>

definition writeFileSync ::
    "environment \<Rightarrow> filesystem \<Rightarrow> string \<Rightarrow> string \<Rightarrow> js_error + filesystem" where
  "writeFileSync env fs path data =
     (case write_error env path of Some e \<Rightarrow> Inl e | None \<Rightarrow> Inr (fs(path \<mapsto> data)))"

text \<open>What a run leaves behind: the console calls in order, the files, and its result.\<close>

record 'a run =
  printed :: "console list"
  files :: filesystem
  result :: 'a

subsection \<open>\<^verbatim>\<open>convertDocxToHtml\<close>\<close>

text \<open>The complete page built around the two rendered fragments.\<close>

definition html_document :: "string \<Rightarrow> string \<Rightarrow> string \<Rightarrow> string" where
  \<open>html_document title styleHTML containerHTML =
     join_lines
      [''<!DOCTYPE html>'',
       ''<html lang="en">'',
       ''<head>'',
       ''  <meta charset="UTF-8">'',
       ''  <meta name="viewport" content="width=device-width, initial-scale=1.0">'',
       ''  <title>'' @ title @ ''</title>'',
       ''  <style>'',
       ''    body { margin: 0; padding: 20px; background: #f0f0f0; }'',
       ''  </style>'',
       ''  '' @ styleHTML,
       ''</head>'',
       ''<body>'',
       ''  '' @ containerHTML,
       ''</body>'',
       ''</html>'']\<close>

text \<open>
  An \<^verbatim>\<open>async\<close> function: an exception thrown inside it, by \<^verbatim>\<open>readFileSync\<close> or
  \<^verbatim>\<open>writeFileSync\<close>, rejects the promise it returns, as a rejection of the awaited
  \<^verbatim>\<open>renderAsync\<close> does. The statements after the \<^verbatim>\<open>await\<close> run only when it resolves.
\<close>

definition convertDocxToHtml ::
    "environment \<Rightarrow> filesystem \<Rightarrow> string \<Rightarrow> string \<Rightarrow> options \<Rightarrow> unit promise run" where
  "convertDocxToHtml env fs inputPath outputPath opts =
    (let out1 =
           (if debug (docxOptions opts)
            then [ConsoleLog [''Options:'', JSON_stringify env (docxOptions opts)]]
            else [])
           @ [ConsoleLog [''Reading: '' @ inputPath]]
     in case readFileSync env fs inputPath of
          Inl e \<Rightarrow> \<lparr>printed = out1, files = fs, result = Rejected e\<rparr>
        | Inr docxBuffer \<Rightarrow>
           (let out2 = out1 @ [ConsoleLog [''Converting...'']]
            in case renderAsync env docxBuffer (docxOptions opts) of
                 Rejected e \<Rightarrow> \<lparr>printed = out2, files = fs, result = Rejected e\<rparr>
               | Pending \<Rightarrow> \<lparr>printed = out2, files = fs, result = Pending\<rparr>
               | Resolved (styleHTML, containerHTML) \<Rightarrow>
                  (let html =
                         (if bodyOnly opts
                          then styleHTML @ [CHR 0x0A] @ containerHTML
                          else html_document (basename env inputPath ''.docx'')
                                 styleHTML containerHTML)
                   in case writeFileSync env fs outputPath html of
                        Inl e \<Rightarrow> \<lparr>printed = out2, files = fs, result = Rejected e\<rparr>
                      | Inr fs' \<Rightarrow>
                          \<lparr>printed = out2 @ [ConsoleLog [''Output: '' @ outputPath],
                                              ConsoleLog [''Done!'']],
                           files = fs',
                           result = Resolved ()\<rparr>)))"

subsection \<open>The main program\<close>

text \<open>
  How the process ends: through \<^verbatim>\<open>process.exit\<close> with a status, by running to the end
  of the script with the conversion done, or with the conversion never settling.
\<close>

datatype status = Exited nat | Completed | Unsettled

text \<open>The value given to \<^verbatim>\<open>options.output\<close> when the command line names no output.\<close>

definition default_output :: "string \<Rightarrow> string" where
  "default_output inputPath = replace_at_end ''.docx'' ''.html'' inputPath"

text \<open>The handler passed to \<^verbatim>\<open>.catch\<close>; \<^verbatim>\<open>process.exit(1)\<close> follows it.\<close>

definition catch_handler :: "options \<Rightarrow> js_error \<Rightarrow> console list" where
  "catch_handler opts err =
     [ConsoleError [''Error:'', message err]]
     @ (if debug (docxOptions opts) then [ConsoleError [stack err]] else [])"

definition no_input :: "console list" where
  \<open>no_input =
     [ConsoleError [''Error: No input file specified''],
      ConsoleLog [''Usage: node scripts/docx-to-html.mjs <input.docx> [output.html] [options]''],
      ConsoleLog [''Use --help for more information'']]\<close>

text \<open>
  The last statement, \<^verbatim>\<open>convertDocxToHtml(...).catch(...)\<close>: a resolved conversion
  lets the script run to its end, a rejected one runs the handler and exits with 1.
\<close>

definition convert_and_catch ::
    "environment \<Rightarrow> filesystem \<Rightarrow> options \<Rightarrow> string \<Rightarrow> string \<Rightarrow> status run" where
  "convert_and_catch env fs opts inputPath outputPath =
    (let r = convertDocxToHtml env fs inputPath outputPath opts
     in case result r of
          Resolved u \<Rightarrow> \<lparr>printed = printed r, files = files r, result = Completed\<rparr>
        | Pending \<Rightarrow> \<lparr>printed = printed r, files = files r, result = Unsettled\<rparr>
        | Rejected err \<Rightarrow>
            \<lparr>printed = printed r @ catch_handler opts err,
             files = files r,
             result = Exited 1\<rparr>)"

text \<open>
  \<open>argv\<close> is \<^verbatim>\<open>process.argv\<close>. The tests \<^verbatim>\<open>!options.input\<close> and \<^verbatim>\<open>!options.output\<close>
  hold for \<^verbatim>\<open>null\<close> and for the empty string.
\<close>

definition main :: "environment \<Rightarrow> filesystem \<Rightarrow> string list \<Rightarrow> status run" where
  "main env fs argv =
    (case parseArgs (drop 2 argv) of
       Exit out code \<Rightarrow> \<lparr>printed = out, files = fs, result = Exited code\<rparr>
     | Return opts \<Rightarrow>
        (case (if falsy (input opts) then None else input opts) of
           None \<Rightarrow> \<lparr>printed = no_input, files = fs, result = Exited 1\<rparr>
         | Some inputPath \<Rightarrow>
            (let outputPath =
                   (case (if falsy (output opts) then None else output opts) of
                      None \<Rightarrow> default_output inputPath
                    | Some p \<Rightarrow> p)
             in convert_and_catch env fs (opts\<lparr>output := Some outputPath\<rparr>)
                  inputPath outputPath)))"

subsection \<open>Vocabulary of the statements about the script\<close>

text \<open>The option flags of the usage text that stand for themselves.\<close>

definition option_flags :: "string list" where
  "option_flags =
     [''--no-wrapper'', ''--hide-wrapper-print'', ''--ignore-width'', ''--ignore-height'',
      ''--ignore-fonts'', ''--no-break-pages'', ''--debug'', ''--experimental'',
      ''--no-trim-xml'', ''--render-page-breaks'', ''--base64'', ''--render-changes'',
      ''--render-comments'', ''--no-alt-chunks'', ''--no-headers'', ''--no-footers'',
      ''--no-footnotes'', ''--no-endnotes'', ''--body-only'']"

text \<open>A recognized option flag: one of those, or \<^verbatim>\<open>--class-name=NAME\<close>.\<close>

definition recognized :: "string \<Rightarrow> bool" where
  "recognized arg = (arg \<in> set option_flags \<or> startsWith arg ''--class-name='')"

text \<open>The path ends in \<^verbatim>\<open>.docx\<close>, in any mix of upper and lower case.\<close>

definition ends_with_docx :: "string \<Rightarrow> bool" where
  "ends_with_docx path =
     (5 \<le> length path \<and>
      (let ext = drop (length path - 5) path
       in ext ! 0 = CHR ''.''
          \<and> ext ! 1 \<in> {CHR ''d'', CHR ''D''}
          \<and> ext ! 2 \<in> {CHR ''o'', CHR ''O''}
          \<and> ext ! 3 \<in> {CHR ''c'', CHR ''C''}
          \<and> ext ! 4 \<in> {CHR ''x'', CHR ''X''}))"

text \<open>The arguments of the \<^verbatim>\<open>console.error\<close> calls among the console calls.\<close>

fun errors_of :: "console list \<Rightarrow> string list list" where
  "errors_of [] = []"
| "errors_of (ConsoleLog xs # es) = errors_of es"
| "errors_of (ConsoleError xs # es) = xs # errors_of es"

section \<open>The style cascade of the renderer\<close>

text \<open>
  Modelled from the spec: the renderer that resolves the cascade (the documentation names
  \<^verbatim>\<open>HtmlRenderer.processStyles\<close> in \<^verbatim>\<open>html-renderer.ts\<close>) is not among the sources, so
  this section follows the specification's description of the element model, the style
  catalog and the cascade. The layers that exist for tables only are left out.
\<close>

text \<open>Modelled from the spec: a mapping of CSS property names to values.\<close>

type_synonym props = "string \<rightharpoonup> string"

text \<open>
  Modelled from the spec: a style definition has a target element kind, an optional
  parent style identifier and a set of property assignments.
\<close>

record style_definition =
  target :: string
  parent :: "string option"
  assignments :: props

text \<open>Modelled from the spec: the style catalog, from style identifier to definition.\<close>

type_synonym style_catalog = "(string \<times> style_definition) list"

text \<open>
  Modelled from the spec: the numbering catalog, from numbering identifier to the ordered
  list of its levels, each with the properties of that level.
\<close>

type_synonym numbering_catalog = "(string \<times> props list) list"

text \<open>
  Modelled from the spec: an element has a kind, an optional reference to a named style,
  an optional (numbering id, level) pair and its direct formatting.
\<close>

record element =
  kind :: string
  styleName :: "string option"
  numbering :: "(string \<times> nat) option"
  direct :: props

text \<open>
  Modelled from the spec: the inheritance chain of a style, from the most distant
  ancestor to the style itself, found by an iterative walk that remembers the
  identifiers it has seen; \<open>None\<close> is the error for a cycle. An identifier with no
  definition contributes nothing.
\<close>

function style_chain ::
    "style_catalog \<Rightarrow> string list \<Rightarrow> string \<Rightarrow> style_definition list option" where
  "style_chain catalog seen sid =
     (if sid \<in> set seen then None
      else (case map_of catalog sid of
              None \<Rightarrow> Some []
            | Some st \<Rightarrow>
               (case parent st of
                  None \<Rightarrow> Some [st]
                | Some pid \<Rightarrow>
                   (case style_chain catalog (sid # seen) pid of
                      None \<Rightarrow> None
                    | Some ancestors \<Rightarrow> Some (ancestors @ [st])))))"
  by pat_completeness auto
termination
proof (relation "measure (\<lambda>(catalog, seen, sid). card (fst ` set catalog - set seen))")
  show "wf (measure (\<lambda>(catalog, seen, sid). card (fst ` set catalog - set seen)))" by simp
next
  fix catalog :: style_catalog and seen :: "string list" and sid st pid
  assume new: "sid \<notin> set seen" and st: "map_of catalog sid = Some st"
  from st have "sid \<in> fst ` set catalog" by (metis map_of_SomeD fst_conv image_eqI)
  with new have "fst ` set catalog - set (sid # seen) \<subset> fst ` set catalog - set seen"
    by auto
  then have "card (fst ` set catalog - set (sid # seen)) < card (fst ` set catalog - set seen)"
    by (intro psubset_card_mono) simp_all
  then show "((catalog, sid # seen, pid), (catalog, seen, sid))
          \<in> measure (\<lambda>(catalog, seen, sid). card (fst ` set catalog - set seen))"
    by simp
qed

declare style_chain.simps [simp del]

text \<open>Modelled from the spec: an ordered merge, a later layer winning on conflict.\<close>

definition merge_all :: "props list \<Rightarrow> props" where
  "merge_all layers = foldl (++) Map.empty layers"

text \<open>
  Modelled from the spec: the properties of the numbering level an element refers to;
  none when it refers to no level or to one that is not defined.
\<close>

definition numbering_level :: "numbering_catalog \<Rightarrow> element \<Rightarrow> props" where
  "numbering_level numberings el =
     (case numbering el of
        None \<Rightarrow> Map.empty
      | Some (nid, level) \<Rightarrow>
          (case map_of numberings nid of
             None \<Rightarrow> Map.empty
           | Some levels \<Rightarrow> if level < length levels then levels ! level else Map.empty))"

text \<open>
  Modelled from the spec: the effective style is the merge of the document defaults for
  the element kind, the named style's chain from the most distant ancestor to the most
  specific, the numbering-level properties, and the direct formatting, in that order.
\<close>

definition effective_style ::
    "(string \<Rightarrow> props) \<Rightarrow> style_catalog \<Rightarrow> numbering_catalog \<Rightarrow> element \<Rightarrow> props option" where
  "effective_style defaults catalog numberings el =
     (case (case styleName el of None \<Rightarrow> Some [] | Some sid \<Rightarrow> style_chain catalog [] sid) of
        None \<Rightarrow> None
      | Some chain \<Rightarrow>
          Some (defaults (kind el) ++ merge_all (map assignments chain)
                ++ numbering_level numberings el ++ direct el))"

section \<open>Properties of \<^verbatim>\<open>parseArgs\<close>\<close>

subsection \<open>The loop and its step\<close>

lemma parseArgs_loop_append:
  "parseArgs_loop opts (xs @ ys) =
     (case parseArgs_loop opts xs of
        Exit out code \<Rightarrow> Exit out code
      | Return opts' \<Rightarrow> parseArgs_loop opts' ys)"
  by (induction xs arbitrary: opts) (simp_all split: parsed.splits)

lemma parseArgs_snoc:
  "parseArgs args = Return opts \<Longrightarrow> parseArgs (args @ [flag]) = parseArg opts flag"
  by (simp add: parseArgs_def parseArgs_loop_append split: parsed.splits)

lemma not_dash_cases:
  assumes "\<not> startsWith arg ''-''"
  shows "arg = [] \<or> (\<exists>c cs. arg = c # cs \<and> c \<noteq> CHR ''-'')"
  using assms by (cases arg) (simp_all add: startsWith_def)

lemma parseArg_positional:
  assumes "\<not> startsWith arg ''-''"
  shows "parseArg opts arg =
           (if falsy (input opts) then Return (opts\<lparr>input := Some arg\<rparr>)
            else if falsy (output opts) then Return (opts\<lparr>output := Some arg\<rparr>)
            else Return opts)"
proof -
  from not_dash_cases [OF assms] show ?thesis
  proof
    assume "arg = []"
    then show ?thesis by (simp add: parseArg_def startsWith_def)
  next
    assume "\<exists>c cs. arg = c # cs \<and> c \<noteq> CHR ''-''"
    then obtain c cs where "arg = c # cs" "c \<noteq> CHR ''-''" by blast
    then show ?thesis by (simp add: parseArg_def startsWith_def)
  qed
qed

lemma startsWith_append: "startsWith (p @ s) p"
  by (simp add: startsWith_def)

lemma startsWith_decompose: "startsWith s p \<Longrightarrow> s = p @ drop (length p) s"
  unfolding startsWith_def by (metis append_take_drop_id)

lemma split_first:
  "c \<notin> set xs \<Longrightarrow> split c (xs @ c # ys) = xs # split c ys"
  by (induction xs) auto

lemma split_head: "\<exists>rest. split c ys = takeWhile (\<lambda>x. x \<noteq> c) ys # rest"
  by (induction ys) (auto split: list.splits)

lemma class_name_segment:
  "index (split (CHR ''='') (''--class-name='' @ name)) 1
     = Some (takeWhile (\<lambda>x. x \<noteq> CHR ''='') name)"
proof -
  have "split (CHR ''='') (''--class-name'' @ CHR ''='' # name)
          = ''--class-name'' # split (CHR ''='') name"
    by (rule split_first) simp
  moreover obtain rest where
    "split (CHR ''='') name = takeWhile (\<lambda>x. x \<noteq> CHR ''='') name # rest"
    using split_head by blast
  ultimately show ?thesis by (simp add: index_def)
qed

lemma parseArg_class_name:
  "parseArg opts (''--class-name='' @ name) =
     Return (opts\<lparr>docxOptions := (docxOptions opts)
               \<lparr>className := Some (takeWhile (\<lambda>x. x \<noteq> CHR ''='') name)\<rparr>\<rparr>)"
proof -
  have sw: "startsWith (''--class-name='' @ name) ''--class-name=''"
    by (rule startsWith_append)
  have idx: "index (split (CHR ''='') (''--class-name='' @ name)) 1
     = Some (takeWhile (\<lambda>x. x \<noteq> CHR ''='') name)" by (rule class_name_segment)
  show ?thesis
    unfolding parseArg_def using sw idx by simp
qed

lemma parseArg_flags:
  "parseArg opts ''--no-wrapper'' =
     Return (opts\<lparr>docxOptions := (docxOptions opts)\<lparr>inWrapper := False\<rparr>\<rparr>)"
  "parseArg opts ''--hide-wrapper-print'' =
     Return (opts\<lparr>docxOptions := (docxOptions opts)\<lparr>hideWrapperOnPrint := True\<rparr>\<rparr>)"
  "parseArg opts ''--ignore-width'' =
     Return (opts\<lparr>docxOptions := (docxOptions opts)\<lparr>ignoreWidth := True\<rparr>\<rparr>)"
  "parseArg opts ''--ignore-height'' =
     Return (opts\<lparr>docxOptions := (docxOptions opts)\<lparr>ignoreHeight := True\<rparr>\<rparr>)"
  "parseArg opts ''--ignore-fonts'' =
     Return (opts\<lparr>docxOptions := (docxOptions opts)\<lparr>ignoreFonts := True\<rparr>\<rparr>)"
  "parseArg opts ''--no-break-pages'' =
     Return (opts\<lparr>docxOptions := (docxOptions opts)\<lparr>breakPages := False\<rparr>\<rparr>)"
  "parseArg opts ''--debug'' =
     Return (opts\<lparr>docxOptions := (docxOptions opts)\<lparr>debug := True\<rparr>\<rparr>)"
  "parseArg opts ''--experimental'' =
     Return (opts\<lparr>docxOptions := (docxOptions opts)\<lparr>experimental := True\<rparr>\<rparr>)"
  "parseArg opts ''--no-trim-xml'' =
     Return (opts\<lparr>docxOptions := (docxOptions opts)\<lparr>trimXmlDeclaration := False\<rparr>\<rparr>)"
  "parseArg opts ''--render-page-breaks'' =
     Return (opts\<lparr>docxOptions :=
               (docxOptions opts)\<lparr>ignoreLastRenderedPageBreak := False\<rparr>\<rparr>)"
  "parseArg opts ''--base64'' =
     Return (opts\<lparr>docxOptions := (docxOptions opts)\<lparr>useBase64URL := True\<rparr>\<rparr>)"
  "parseArg opts ''--render-changes'' =
     Return (opts\<lparr>docxOptions := (docxOptions opts)\<lparr>renderChanges := True\<rparr>\<rparr>)"
  "parseArg opts ''--render-comments'' =
     Return (opts\<lparr>docxOptions := (docxOptions opts)\<lparr>renderComments := True\<rparr>\<rparr>)"
  "parseArg opts ''--no-alt-chunks'' =
     Return (opts\<lparr>docxOptions := (docxOptions opts)\<lparr>renderAltChunks := False\<rparr>\<rparr>)"
  "parseArg opts ''--no-headers'' =
     Return (opts\<lparr>docxOptions := (docxOptions opts)\<lparr>renderHeaders := False\<rparr>\<rparr>)"
  "parseArg opts ''--no-footers'' =
     Return (opts\<lparr>docxOptions := (docxOptions opts)\<lparr>renderFooters := False\<rparr>\<rparr>)"
  "parseArg opts ''--no-footnotes'' =
     Return (opts\<lparr>docxOptions := (docxOptions opts)\<lparr>renderFootnotes := False\<rparr>\<rparr>)"
  "parseArg opts ''--no-endnotes'' =
     Return (opts\<lparr>docxOptions := (docxOptions opts)\<lparr>renderEndnotes := False\<rparr>\<rparr>)"
  "parseArg opts ''--body-only'' = Return (opts\<lparr>bodyOnly := True\<rparr>)"
  by (simp_all add: parseArg_def startsWith_def)

lemma parseArg_unknown:
  assumes "startsWith arg ''-''" and "\<not> recognized arg"
    and "arg \<noteq> ''--help''" and "arg \<noteq> ''-h''"
  shows "parseArg opts arg = Exit [ConsoleError [''Unknown option: '' @ arg]] 1"
  using assms unfolding recognized_def option_flags_def parseArg_def by simp

subsection \<open>What one step preserves\<close>

lemma parseArg_className_defined:
  assumes "parseArg opts arg = Return opts'" and "className (docxOptions opts) \<noteq> None"
  shows "className (docxOptions opts') \<noteq> None"
proof (cases "startsWith arg ''--class-name=''")
  case True
  then obtain name where "arg = ''--class-name='' @ name"
    using startsWith_decompose by blast
  then have "parseArg opts arg = Return (opts\<lparr>docxOptions := (docxOptions opts)
               \<lparr>className := Some (takeWhile (\<lambda>x. x \<noteq> CHR ''='') name)\<rparr>\<rparr>)"
    by (simp only: parseArg_class_name)
  with assms show ?thesis by auto
next
  case False
  with assms show ?thesis
    by (auto simp add: parseArg_def split: if_splits)
qed

lemma parseArg_base64:
  assumes "parseArg opts arg = Return opts'" and "useBase64URL (docxOptions opts)"
  shows "useBase64URL (docxOptions opts')"
  using assms by (auto simp add: parseArg_def split: if_splits)

lemma loop_positional:
  "\<forall>a\<in>set args. \<not> startsWith a ''-'' \<Longrightarrow>
     \<exists>opts'. parseArgs_loop opts args = Return opts'
        \<and> docxOptions opts' = docxOptions opts \<and> bodyOnly opts' = bodyOnly opts"
proof (induction args arbitrary: opts)
  case Nil
  then show ?case by simp
next
  case (Cons a args)
  then have a: "\<not> startsWith a ''-''" and rest: "\<forall>a\<in>set args. \<not> startsWith a ''-''"
    by simp_all
  obtain o1 where o1: "parseArg opts a = Return o1" "docxOptions o1 = docxOptions opts"
      "bodyOnly o1 = bodyOnly opts"
    using parseArg_positional [OF a, of opts] by (auto split: if_splits)
  from Cons.IH [OF rest, of o1] o1 show ?case by auto
qed

lemma loop_className:
  "parseArgs_loop opts args = Return opts' \<Longrightarrow> className (docxOptions opts) \<noteq> None
     \<Longrightarrow> className (docxOptions opts') \<noteq> None"
proof (induction args arbitrary: opts)
  case Nil
  then show ?case by simp
next
  case (Cons a args)
  then obtain o1 where o1: "parseArg opts a = Return o1" "parseArgs_loop o1 args = Return opts'"
    by (auto split: parsed.splits)
  from parseArg_className_defined [OF o1(1) Cons.prems(2)] Cons.IH [OF o1(2)]
  show ?case by blast
qed

lemma loop_base64:
  "parseArgs_loop opts args = Return opts' \<Longrightarrow> useBase64URL (docxOptions opts)
     \<Longrightarrow> useBase64URL (docxOptions opts')"
proof (induction args arbitrary: opts)
  case Nil
  then show ?case by simp
next
  case (Cons a args)
  then obtain o1 where o1: "parseArg opts a = Return o1" "parseArgs_loop o1 args = Return opts'"
    by (auto split: parsed.splits)
  from parseArg_base64 [OF o1(1) Cons.prems(2)] Cons.IH [OF o1(2)]
  show ?case by blast
qed

subsection \<open>The returned configuration\<close>

text \<open>
  C2: for every argument list without option flags (no argument starts with \<^verbatim>\<open>-\<close>),
  \<^verbatim>\<open>parseArgs\<close> returns, and the renderer options are the documented defaults.
\<close>

theorem parseArgs_positional_defaults:
  assumes "\<forall>a\<in>set args. \<not> startsWith a ''-''"
  shows "\<exists>opts. parseArgs args = Return opts \<and>
           docxOptions opts =
             \<lparr> inWrapper = True, hideWrapperOnPrint = False, ignoreWidth = False,
               ignoreHeight = False, ignoreFonts = False, breakPages = True, debug = False,
               experimental = False, className = Some ''docx'', trimXmlDeclaration = True,
               ignoreLastRenderedPageBreak = True, renderHeaders = True,
               renderFooters = True, renderFootnotes = True, renderEndnotes = True,
               useBase64URL = True, renderChanges = False, renderComments = False,
               renderAltChunks = True \<rparr>"
  using loop_positional [OF assms, of initial_options]
  by (auto simp: parseArgs_def initial_options_def)

theorem parseArgs_positional_defaults_witness:
  "\<not> startsWith ''in.docx'' ''-'' \<and> \<not> startsWith ''out.html'' ''-'' \<and>
   (\<exists>opts. parseArgs [''in.docx'', ''out.html''] = Return opts \<and>
           docxOptions opts =
             \<lparr> inWrapper = True, hideWrapperOnPrint = False, ignoreWidth = False,
               ignoreHeight = False, ignoreFonts = False, breakPages = True, debug = False,
               experimental = False, className = Some ''docx'', trimXmlDeclaration = True,
               ignoreLastRenderedPageBreak = True, renderHeaders = True,
               renderFooters = True, renderFootnotes = True, renderEndnotes = True,
               useBase64URL = True, renderChanges = False, renderComments = False,
               renderAltChunks = True \<rparr>)"
proof -
  have h: "\<forall>a\<in>set [''in.docx'', ''out.html'']. \<not> startsWith a ''-''"
    by (simp add: startsWith_def)
  show ?thesis using h parseArgs_positional_defaults [OF h] by simp
qed

lemma parse_one_positional:
  "\<not> startsWith path ''-'' \<Longrightarrow>
     parseArgs [path] = Return (initial_options\<lparr>input := Some path\<rparr>)"
  by (simp add: parseArgs_def parseArg_positional) (simp add: initial_options_def falsy_def)

text \<open>
  C4: when \<^verbatim>\<open>parseArgs\<close> returns on an argument list, it returns on the list with one
  recognized option flag appended, and the structure differs in that flag's field only,
  which holds the documented value; for \<^verbatim>\<open>--class-name=NAME\<close> the value is the part of
  \<^verbatim>\<open>NAME\<close> before its first \<^verbatim>\<open>=\<close>.
\<close>

theorem append_flag_frame:
  assumes "parseArgs args = Return opts"
  shows
   "parseArgs (args @ [''--no-wrapper'']) =
      Return (opts\<lparr>docxOptions := (docxOptions opts)\<lparr>inWrapper := False\<rparr>\<rparr>) \<and>
    parseArgs (args @ [''--hide-wrapper-print'']) =
      Return (opts\<lparr>docxOptions := (docxOptions opts)\<lparr>hideWrapperOnPrint := True\<rparr>\<rparr>) \<and>
    parseArgs (args @ [''--ignore-width'']) =
      Return (opts\<lparr>docxOptions := (docxOptions opts)\<lparr>ignoreWidth := True\<rparr>\<rparr>) \<and>
    parseArgs (args @ [''--ignore-height'']) =
      Return (opts\<lparr>docxOptions := (docxOptions opts)\<lparr>ignoreHeight := True\<rparr>\<rparr>) \<and>
    parseArgs (args @ [''--ignore-fonts'']) =
      Return (opts\<lparr>docxOptions := (docxOptions opts)\<lparr>ignoreFonts := True\<rparr>\<rparr>) \<and>
    parseArgs (args @ [''--no-break-pages'']) =
      Return (opts\<lparr>docxOptions := (docxOptions opts)\<lparr>breakPages := False\<rparr>\<rparr>) \<and>
    parseArgs (args @ [''--debug'']) =
      Return (opts\<lparr>docxOptions := (docxOptions opts)\<lparr>debug := True\<rparr>\<rparr>) \<and>
    parseArgs (args @ [''--experimental'']) =
      Return (opts\<lparr>docxOptions := (docxOptions opts)\<lparr>experimental := True\<rparr>\<rparr>) \<and>
    parseArgs (args @ [''--class-name='' @ name]) =
      Return (opts\<lparr>docxOptions := (docxOptions opts)
                \<lparr>className := Some (takeWhile (\<lambda>c. c \<noteq> CHR ''='') name)\<rparr>\<rparr>) \<and>
    parseArgs (args @ [''--no-trim-xml'']) =
      Return (opts\<lparr>docxOptions := (docxOptions opts)\<lparr>trimXmlDeclaration := False\<rparr>\<rparr>) \<and>
    parseArgs (args @ [''--render-page-breaks'']) =
      Return (opts\<lparr>docxOptions :=
                (docxOptions opts)\<lparr>ignoreLastRenderedPageBreak := False\<rparr>\<rparr>) \<and>
    parseArgs (args @ [''--base64'']) =
      Return (opts\<lparr>docxOptions := (docxOptions opts)\<lparr>useBase64URL := True\<rparr>\<rparr>) \<and>
    parseArgs (args @ [''--render-changes'']) =
      Return (opts\<lparr>docxOptions := (docxOptions opts)\<lparr>renderChanges := True\<rparr>\<rparr>) \<and>
    parseArgs (args @ [''--render-comments'']) =
      Return (opts\<lparr>docxOptions := (docxOptions opts)\<lparr>renderComments := True\<rparr>\<rparr>) \<and>
    parseArgs (args @ [''--no-alt-chunks'']) =
      Return (opts\<lparr>docxOptions := (docxOptions opts)\<lparr>renderAltChunks := False\<rparr>\<rparr>) \<and>
    parseArgs (args @ [''--no-headers'']) =
      Return (opts\<lparr>docxOptions := (docxOptions opts)\<lparr>renderHeaders := False\<rparr>\<rparr>) \<and>
    parseArgs (args @ [''--no-footers'']) =
      Return (opts\<lparr>docxOptions := (docxOptions opts)\<lparr>renderFooters := False\<rparr>\<rparr>) \<and>
    parseArgs (args @ [''--no-footnotes'']) =
      Return (opts\<lparr>docxOptions := (docxOptions opts)\<lparr>renderFootnotes := False\<rparr>\<rparr>) \<and>
    parseArgs (args @ [''--no-endnotes'']) =
      Return (opts\<lparr>docxOptions := (docxOptions opts)\<lparr>renderEndnotes := False\<rparr>\<rparr>) \<and>
    parseArgs (args @ [''--body-only'']) = Return (opts\<lparr>bodyOnly := True\<rparr>)"
proof -
  have step: "parseArgs (args @ [flag]) = parseArg opts flag" for flag
    using assms by (rule parseArgs_snoc)
  show ?thesis
    unfolding step by (simp only: parseArg_flags parseArg_class_name simp_thms)
qed

theorem append_flag_frame_witness:
  "parseArgs [''in.docx''] = Return (initial_options\<lparr>input := Some ''in.docx''\<rparr>) \<and>
   parseArgs ([''in.docx''] @ [''--no-wrapper'']) =
     Return (initial_options
       \<lparr>input := Some ''in.docx'',
        docxOptions := (docxOptions initial_options)\<lparr>inWrapper := False\<rparr>\<rparr>) \<and>
   parseArgs ([''in.docx''] @ [''--class-name=memo=v2'']) =
     Return (initial_options
       \<lparr>input := Some ''in.docx'',
        docxOptions := (docxOptions initial_options)\<lparr>className := Some ''memo''\<rparr>\<rparr>)"
proof -
  have h: "parseArgs [''in.docx''] = Return (initial_options\<lparr>input := Some ''in.docx''\<rparr>)"
    by (rule parse_one_positional) (simp add: startsWith_def)
  show ?thesis using h append_flag_frame [OF h, of "''memo=v2''"] by simp
qed

text \<open>
  C6: whenever \<^verbatim>\<open>parseArgs\<close> returns, the renderer options it returns hold a value in
  each of the nineteen fields: a boolean in the eighteen flags and a string, never
  \<^verbatim>\<open>undefined\<close>, in \<open>className\<close>.
\<close>

theorem parseArgs_fully_populated:
  assumes "parseArgs args = Return opts"
  shows "\<exists>b1 b2 b3 b4 b5 b6 b7 b8 name b9 b10 b11 b12 b13 b14 b15 b16 b17 b18.
           docxOptions opts =
             \<lparr> inWrapper = b1, hideWrapperOnPrint = b2, ignoreWidth = b3,
               ignoreHeight = b4, ignoreFonts = b5, breakPages = b6, debug = b7,
               experimental = b8, className = Some name, trimXmlDeclaration = b9,
               ignoreLastRenderedPageBreak = b10, renderHeaders = b11,
               renderFooters = b12, renderFootnotes = b13, renderEndnotes = b14,
               useBase64URL = b15, renderChanges = b16, renderComments = b17,
               renderAltChunks = b18 \<rparr>"
proof -
  have "className (docxOptions opts) \<noteq> None"
    using loop_className [of initial_options args opts] assms
    by (simp add: parseArgs_def initial_options_def)
  then obtain name where n: "className (docxOptions opts) = Some name" by blast
  obtain d where d: "docxOptions opts = d" by simp
  show ?thesis using n unfolding d
    by (cases d) auto
qed

theorem parseArgs_fully_populated_witness:
  "parseArgs [''--class-name=''] =
     Return (initial_options
       \<lparr>docxOptions := (docxOptions initial_options)\<lparr>className := Some ''''\<rparr>\<rparr>) \<and>
   (\<exists>b1 b2 b3 b4 b5 b6 b7 b8 name b9 b10 b11 b12 b13 b14 b15 b16 b17 b18.
      docxOptions (initial_options
         \<lparr>docxOptions := (docxOptions initial_options)\<lparr>className := Some ''''\<rparr>\<rparr>) =
             \<lparr> inWrapper = b1, hideWrapperOnPrint = b2, ignoreWidth = b3,
               ignoreHeight = b4, ignoreFonts = b5, breakPages = b6, debug = b7,
               experimental = b8, className = Some name, trimXmlDeclaration = b9,
               ignoreLastRenderedPageBreak = b10, renderHeaders = b11,
               renderFooters = b12, renderFootnotes = b13, renderEndnotes = b14,
               useBase64URL = b15, renderChanges = b16, renderComments = b17,
               renderAltChunks = b18 \<rparr>)"
proof -
  have "parseArgs [''--class-name='' @ ''''] =
     Return (initial_options
       \<lparr>docxOptions := (docxOptions initial_options)\<lparr>className := Some ''''\<rparr>\<rparr>)"
    unfolding parseArgs_def parseArgs_loop.simps parseArg_class_name by simp
  then have h: "parseArgs [''--class-name=''] =
     Return (initial_options
       \<lparr>docxOptions := (docxOptions initial_options)\<lparr>className := Some ''''\<rparr>\<rparr>)"
    by simp
  show ?thesis using h parseArgs_fully_populated [OF h] by blast
qed

text \<open>
  C8: whenever \<^verbatim>\<open>parseArgs\<close> returns, \<open>useBase64URL\<close> is true in the renderer options
  it returns: no argument list switches the inline base64 image URLs off.
\<close>

theorem parseArgs_useBase64URL:
  "parseArgs args = Return opts \<Longrightarrow> useBase64URL (docxOptions opts) = True"
  using loop_base64 [of initial_options args opts]
  by (simp add: parseArgs_def initial_options_def)

theorem parseArgs_useBase64URL_witness:
  "parseArgs [''in.docx''] = Return (initial_options\<lparr>input := Some ''in.docx''\<rparr>) \<and>
   useBase64URL (docxOptions (initial_options\<lparr>input := Some ''in.docx''\<rparr>)) = True"
proof -
  have h: "parseArgs [''in.docx''] = Return (initial_options\<lparr>input := Some ''in.docx''\<rparr>)"
    by (rule parse_one_positional) (simp add: startsWith_def)
  show ?thesis using h parseArgs_useBase64URL [OF h] by blast
qed

text \<open>
  C9: let an argument start with \<^verbatim>\<open>-\<close> and be neither a recognized option flag nor
  \<^verbatim>\<open>--help\<close> or \<^verbatim>\<open>-h\<close>. When the loop of \<^verbatim>\<open>parseArgs\<close> reaches it (the arguments
  before it did not end the process), \<^verbatim>\<open>parseArgs\<close> prints \<^verbatim>\<open>Unknown option: \<close> with
  the argument on the error stream and exits with status 1, which is then all the
  program does; and no argument list that contains it makes \<^verbatim>\<open>parseArgs\<close> return.
\<close>

theorem unknown_option_exits:
  assumes "startsWith arg ''-''" and "\<not> recognized arg"
    and "arg \<noteq> ''--help''" and "arg \<noteq> ''-h''"
  shows "(parseArgs pre = Return opts \<longrightarrow>
            parseArgs (pre @ arg # post) = Exit [ConsoleError [''Unknown option: '' @ arg]] 1)
       \<and> (parseArgs pre = Return opts \<and> drop 2 argv = pre @ arg # post \<longrightarrow>
            main env fs argv =
              \<lparr>printed = [ConsoleError [''Unknown option: '' @ arg]], files = fs,
               result = Exited 1\<rparr>)
       \<and> (\<forall>opts'. parseArgs (pre @ arg # post) \<noteq> Return opts')"
proof -
  have step: "\<And>o1. parseArgs_loop o1 (arg # post)
                = Exit [ConsoleError [''Unknown option: '' @ arg]] 1"
    by (simp add: parseArg_unknown [OF assms])
  have a: "parseArgs pre = Return opts \<Longrightarrow>
            parseArgs (pre @ arg # post) = Exit [ConsoleError [''Unknown option: '' @ arg]] 1"
    using step by (simp add: parseArgs_def parseArgs_loop_append)
  have b: "parseArgs (pre @ arg # post) \<noteq> Return opts'" for opts'
    using step by (simp add: parseArgs_def parseArgs_loop_append split: parsed.splits)
  have c: "parseArgs pre = Return opts \<and> drop 2 argv = pre @ arg # post \<Longrightarrow>
            main env fs argv =
              \<lparr>printed = [ConsoleError [''Unknown option: '' @ arg]], files = fs,
               result = Exited 1\<rparr>"
    using a by (simp add: main_def)
  from a b c show ?thesis by blast
qed

theorem unknown_option_exits_witness:
  "startsWith ''--bogus'' ''-'' \<and> \<not> recognized ''--bogus''
   \<and> ''--bogus'' \<noteq> ''--help'' \<and> ''--bogus'' \<noteq> ''-h''
   \<and> parseArgs [''in.docx''] = Return (initial_options\<lparr>input := Some ''in.docx''\<rparr>)
   \<and> drop 2 [''node'', ''docx-to-html.mjs'', ''in.docx'', ''--bogus'', ''--debug'']
       = [''in.docx''] @ ''--bogus'' # [''--debug'']
   \<and> parseArgs ([''in.docx''] @ ''--bogus'' # [''--debug''])
       = Exit [ConsoleError [''Unknown option: --bogus'']] 1
   \<and> main \<lparr>read_error = (\<lambda>p. \<lparr>message = ''ENOENT'', stack = ''at readFileSync''\<rparr>),
            write_error = (\<lambda>p. None),
            renderAsync = (\<lambda>bytes opts. Resolved (''<style></style>'', ''<p>Hello</p>'')),
            basename = (\<lambda>p suffix. p),
            JSON_stringify = (\<lambda>opts. ''{}'')\<rparr>
          Map.empty
          [''node'', ''docx-to-html.mjs'', ''in.docx'', ''--bogus'', ''--debug'']
       = \<lparr>printed = [ConsoleError [''Unknown option: --bogus'']], files = Map.empty,
          result = Exited 1\<rparr>"
proof -
  have h1: "startsWith ''--bogus'' ''-''" by (simp add: startsWith_def)
  have h2: "\<not> recognized ''--bogus''"
    by (simp add: recognized_def option_flags_def startsWith_def)
  have h3: "''--bogus'' \<noteq> ''--help''" by simp
  have h4: "''--bogus'' \<noteq> ''-h''" by simp
  have h5: "parseArgs [''in.docx''] = Return (initial_options\<lparr>input := Some ''in.docx''\<rparr>)"
    by (rule parse_one_positional) (simp add: startsWith_def)
  have h6: "drop 2 [''node'', ''docx-to-html.mjs'', ''in.docx'', ''--bogus'', ''--debug'']
       = [''in.docx''] @ ''--bogus'' # [''--debug'']" by simp
  show ?thesis
    using h1 h2 h3 h4 h5 h6
      unknown_option_exits [OF h1 h2 h3 h4,
        of "[''in.docx'']" "initial_options\<lparr>input := Some ''in.docx''\<rparr>" "[''--debug'']"
           "[''node'', ''docx-to-html.mjs'', ''in.docx'', ''--bogus'', ''--debug'']"]
    by simp
qed

section \<open>Properties of the conversion\<close>

subsection \<open>The default output path\<close>

lemma canonicalize_letters:
  "canonicalize (CHR ''.'') = canonicalize c \<longleftrightarrow> c = CHR ''.''"
  "canonicalize (CHR ''d'') = canonicalize c \<longleftrightarrow> c = CHR ''d'' \<or> c = CHR ''D''"
  "canonicalize (CHR ''o'') = canonicalize c \<longleftrightarrow> c = CHR ''o'' \<or> c = CHR ''O''"
  "canonicalize (CHR ''c'') = canonicalize c \<longleftrightarrow> c = CHR ''c'' \<or> c = CHR ''C''"
  "canonicalize (CHR ''x'') = canonicalize c \<longleftrightarrow> c = CHR ''x'' \<or> c = CHR ''X''"
  by (auto simp: canonicalize_def split: if_splits)

lemma match_length: "match_to_end pat s \<Longrightarrow> length s = length pat"
  by (induction pat s rule: match_to_end.induct) auto

lemma match_docx:
  "match_to_end ''.docx'' s \<longleftrightarrow>
     length s = 5 \<and> s ! 0 = CHR ''.'' \<and> s ! 1 \<in> {CHR ''d'', CHR ''D''}
     \<and> s ! 2 \<in> {CHR ''o'', CHR ''O''} \<and> s ! 3 \<in> {CHR ''c'', CHR ''C''}
     \<and> s ! 4 \<in> {CHR ''x'', CHR ''X''}"
proof (cases "length s = 5")
  case True
  then obtain a b c d e where s: "s = [a, b, c, d, e]"
    by (auto simp: length_Suc_conv eval_nat_numeral)
  show ?thesis unfolding s by (simp add: canonicalize_letters)
next
  case False
  have "\<not> match_to_end ''.docx'' s"
  proof
    assume "match_to_end ''.docx'' s"
    then have "length s = length ''.docx''" by (rule match_length)
    with False show False by simp
  qed
  with False show ?thesis by simp
qed

lemma match_docx_suffix:
  "match_to_end ''.docx'' (drop (length path - 5) path) \<longleftrightarrow> ends_with_docx path"
  unfolding match_docx ends_with_docx_def Let_def by auto

lemma replace_suffix:
  "match_to_end pat ys \<Longrightarrow> replace_at_end pat rep (xs @ ys) = xs @ rep"
proof (induction xs)
  case Nil
  then show ?case by (cases ys) simp_all
next
  case (Cons x xs)
  have "\<not> match_to_end pat (x # xs @ ys)"
  proof
    assume "match_to_end pat (x # xs @ ys)"
    then have "length (x # xs @ ys) = length pat" by (rule match_length)
    moreover have "length ys = length pat" using Cons.prems by (rule match_length)
    ultimately show False by simp
  qed
  with Cons show ?case by simp
qed

lemma replace_no_match:
  "\<not> match_to_end pat (drop (length s - length pat) s) \<Longrightarrow> replace_at_end pat rep s = s"
proof (induction s)
  case Nil
  then show ?case by simp
next
  case (Cons c cs)
  have nm: "\<not> match_to_end pat (c # cs)"
  proof
    assume m: "match_to_end pat (c # cs)"
    then have "length (c # cs) = length pat" by (rule match_length)
    with Cons.prems m show False by simp
  qed
  have "\<not> match_to_end pat (drop (length cs - length pat) cs)"
  proof (cases "length pat \<le> length cs")
    case True
    then have "drop (length (c # cs) - length pat) (c # cs) = drop (length cs - length pat) cs"
      by (simp add: Suc_diff_le)
    with Cons.prems show ?thesis by simp
  next
    case False
    show ?thesis
    proof
      assume "match_to_end pat (drop (length cs - length pat) cs)"
      then have "length (drop (length cs - length pat) cs) = length pat" by (rule match_length)
      with False show False by simp
    qed
  qed
  with Cons.IH nm show ?case by simp
qed

lemma default_output_docx:
  assumes "ends_with_docx path"
  shows "default_output path = take (length path - 5) path @ ''.html''"
proof -
  have "match_to_end ''.docx'' (drop (length path - 5) path)"
    using assms by (simp only: match_docx_suffix)
  then have "replace_at_end ''.docx'' ''.html''
               (take (length path - 5) path @ drop (length path - 5) path)
             = take (length path - 5) path @ ''.html''"
    by (rule replace_suffix)
  then show ?thesis by (simp add: default_output_def)
qed

lemma default_output_other:
  assumes "\<not> ends_with_docx path"
  shows "default_output path = path"
proof -
  have "length ''.docx'' = 5" by simp
  then have "\<not> match_to_end ''.docx'' (drop (length path - length ''.docx'') path)"
    using assms by (simp only: match_docx_suffix not_False_eq_True)
  then show ?thesis unfolding default_output_def by (rule replace_no_match)
qed

subsection \<open>What a conversion leaves behind\<close>

lemma convert_cases:
  "convertDocxToHtml env fs inputPath outputPath opts = r \<Longrightarrow>
     (files r = fs \<and> result r \<noteq> Resolved ())
   \<or> (\<exists>bytes styleHTML containerHTML html.
         fs inputPath = Some bytes
       \<and> renderAsync env bytes (docxOptions opts) = Resolved (styleHTML, containerHTML)
       \<and> write_error env outputPath = None
       \<and> files r = fs(outputPath \<mapsto> html) \<and> result r = Resolved ())"
  by (auto simp: convertDocxToHtml_def Let_def readFileSync_def writeFileSync_def
           split: sum.splits promise.splits option.splits prod.splits)

lemma errors_of_append: "errors_of (xs @ ys) = errors_of xs @ errors_of ys"
  by (induction xs rule: errors_of.induct) simp_all

lemma convert_prints_no_error:
  "errors_of (printed (convertDocxToHtml env fs inputPath outputPath opts)) = []"
  by (simp add: convertDocxToHtml_def Let_def errors_of_append
           split: sum.splits promise.splits option.splits prod.splits)

lemma main_conversion:
  assumes "parseArgs (drop 2 argv) = Return opts"
    and "input opts = Some path" and "path \<noteq> []" and "falsy (output opts)"
  shows "main env fs argv =
           convert_and_catch env fs (opts\<lparr>output := Some (default_output path)\<rparr>)
             path (default_output path)"
  using assms by (simp add: main_def falsy_def Let_def)

lemma convert_resolved_page:
  assumes "result (convertDocxToHtml env fs inputPath outputPath opts) = Resolved u"
  shows "\<exists>bytes styleHTML containerHTML.
           fs inputPath = Some bytes
         \<and> renderAsync env bytes (docxOptions opts) = Resolved (styleHTML, containerHTML)
         \<and> files (convertDocxToHtml env fs inputPath outputPath opts)
             = fs(outputPath \<mapsto>
                  (if bodyOnly opts then styleHTML @ [CHR 0x0A] @ containerHTML
                   else html_document (basename env inputPath ''.docx'')
                          styleHTML containerHTML))"
  using assms
  by (auto simp: convertDocxToHtml_def Let_def readFileSync_def writeFileSync_def
           split: sum.splits promise.splits option.splits prod.splits if_splits)

subsection \<open>Failure and the output file\<close>

text \<open>
  C1: when the package is read and \<^verbatim>\<open>renderAsync\<close> rejects, \<^verbatim>\<open>convertDocxToHtml\<close>
  rejects with the same error and leaves every file as it was, also after the handler of
  the main program has run; and in every run the files differ afterwards only if
  \<^verbatim>\<open>renderAsync\<close> resolved, the one difference being the whole page at the output path.
\<close>

theorem render_rejected_writes_nothing:
  "(fs inputPath = Some bytes \<and> renderAsync env bytes (docxOptions opts) = Rejected err \<longrightarrow>
      files (convertDocxToHtml env fs inputPath outputPath opts) = fs
    \<and> result (convertDocxToHtml env fs inputPath outputPath opts) = Rejected err
    \<and> files (convert_and_catch env fs opts inputPath outputPath) = fs)
 \<and> (files (convertDocxToHtml env fs inputPath outputPath opts) \<noteq> fs \<longrightarrow>
      (\<exists>bytes' styleHTML containerHTML html.
          fs inputPath = Some bytes'
        \<and> renderAsync env bytes' (docxOptions opts) = Resolved (styleHTML, containerHTML)
        \<and> files (convertDocxToHtml env fs inputPath outputPath opts)
            = fs(outputPath \<mapsto> html)))"
proof (intro conjI impI)
  assume h: "fs inputPath = Some bytes \<and> renderAsync env bytes (docxOptions opts) = Rejected err"
  then show "files (convertDocxToHtml env fs inputPath outputPath opts) = fs"
    by (simp add: convertDocxToHtml_def Let_def readFileSync_def)
  from h show r: "result (convertDocxToHtml env fs inputPath outputPath opts) = Rejected err"
    by (simp add: convertDocxToHtml_def Let_def readFileSync_def)
  from h show "files (convert_and_catch env fs opts inputPath outputPath) = fs"
    by (simp add: convert_and_catch_def convertDocxToHtml_def Let_def readFileSync_def)
next
  assume "files (convertDocxToHtml env fs inputPath outputPath opts) \<noteq> fs"
  with convert_cases [OF refl, of env fs inputPath outputPath opts]
  show "\<exists>bytes' styleHTML containerHTML html.
          fs inputPath = Some bytes'
        \<and> renderAsync env bytes' (docxOptions opts) = Resolved (styleHTML, containerHTML)
        \<and> files (convertDocxToHtml env fs inputPath outputPath opts)
            = fs(outputPath \<mapsto> html)"
    by blast
qed

theorem render_rejected_writes_nothing_witness:
  "[''in.docx'' \<mapsto> ''PK'', ''out.html'' \<mapsto> ''old page''] ''in.docx'' = Some ''PK''
   \<and> files (convertDocxToHtml
        \<lparr>read_error = (\<lambda>p. \<lparr>message = ''ENOENT'', stack = ''Error: ENOENT''\<rparr>),
         write_error = (\<lambda>p. None),
         renderAsync = (\<lambda>bytes opts.
            Rejected \<lparr>message = ''not a zip file'', stack = ''Error: not a zip file''\<rparr>),
         basename = (\<lambda>p suffix. p),
         JSON_stringify = (\<lambda>opts. ''{}'')\<rparr>
        [''in.docx'' \<mapsto> ''PK'', ''out.html'' \<mapsto> ''old page'']
        ''in.docx'' ''out.html'' initial_options)
      = [''in.docx'' \<mapsto> ''PK'', ''out.html'' \<mapsto> ''old page'']
   \<and> files (convertDocxToHtml
        \<lparr>read_error = (\<lambda>p. \<lparr>message = ''ENOENT'', stack = ''Error: ENOENT''\<rparr>),
         write_error = (\<lambda>p. None),
         renderAsync = (\<lambda>bytes opts. Resolved (''<style></style>'', ''<p>Hello</p>'')),
         basename = (\<lambda>p suffix. p),
         JSON_stringify = (\<lambda>opts. ''{}'')\<rparr>
        [''in.docx'' \<mapsto> ''PK'', ''out.html'' \<mapsto> ''old page'']
        ''in.docx'' ''out.html'' initial_options)
      \<noteq> [''in.docx'' \<mapsto> ''PK'', ''out.html'' \<mapsto> ''old page'']
   \<and> (\<exists>styleHTML containerHTML.
        renderAsync
          \<lparr>read_error = (\<lambda>p. \<lparr>message = ''ENOENT'', stack = ''Error: ENOENT''\<rparr>),
           write_error = (\<lambda>p. None),
           renderAsync = (\<lambda>bytes opts. Resolved (''<style></style>'', ''<p>Hello</p>'')),
           basename = (\<lambda>p suffix. p),
           JSON_stringify = (\<lambda>opts. ''{}'')\<rparr>
          ''PK'' (docxOptions initial_options) = Resolved (styleHTML, containerHTML))"
proof -
  let ?fs = "[''in.docx'' \<mapsto> ''PK'', ''out.html'' \<mapsto> ''old page'']"
  let ?err = "\<lparr>message = ''not a zip file'', stack = ''Error: not a zip file''\<rparr>"
  let ?rejecting =
       "\<lparr>read_error = (\<lambda>p. \<lparr>message = ''ENOENT'', stack = ''Error: ENOENT''\<rparr>),
         write_error = (\<lambda>p. None),
         renderAsync = (\<lambda>bytes opts. Rejected ?err),
         basename = (\<lambda>p suffix. p),
         JSON_stringify = (\<lambda>opts. ''{}'')\<rparr>"
  let ?resolving =
       "\<lparr>read_error = (\<lambda>p. \<lparr>message = ''ENOENT'', stack = ''Error: ENOENT''\<rparr>),
         write_error = (\<lambda>p. None),
         renderAsync = (\<lambda>bytes opts. Resolved (''<style></style>'', ''<p>Hello</p>'')),
         basename = (\<lambda>p suffix. p),
         JSON_stringify = (\<lambda>opts. ''{}'')\<rparr>"
  have h1: "?fs ''in.docx'' = Some ''PK''" by simp
  have h2: "renderAsync ?rejecting ''PK'' (docxOptions initial_options) = Rejected ?err"
    by simp
  have h3: "files (convertDocxToHtml ?resolving ?fs ''in.docx'' ''out.html'' initial_options)
              \<noteq> ?fs"
  proof
    assume "files (convertDocxToHtml ?resolving ?fs ''in.docx'' ''out.html'' initial_options)
              = ?fs"
    then have "files (convertDocxToHtml ?resolving ?fs ''in.docx'' ''out.html''
                 initial_options) ''out.html'' = Some ''old page''"
      by simp
    then show False
      by (simp add: convertDocxToHtml_def Let_def readFileSync_def writeFileSync_def
            initial_options_def html_document_def)
  qed
  note a = render_rejected_writes_nothing
             [of ?fs "''in.docx''" "''PK''" ?rejecting initial_options ?err "''out.html''"]
  note b = render_rejected_writes_nothing
             [of ?fs "''in.docx''" "''PK''" ?resolving initial_options ?err "''out.html''"]
  from a h1 h2 have "files (convertDocxToHtml ?rejecting ?fs ''in.docx'' ''out.html''
                       initial_options) = ?fs"
    by blast
  moreover from b h3 have "\<exists>styleHTML containerHTML.
        renderAsync ?resolving ''PK'' (docxOptions initial_options)
          = Resolved (styleHTML, containerHTML)"
    using h1 by auto
  ultimately show ?thesis using h1 h3 by blast
qed

text \<open>
  C5: when the promise of \<^verbatim>\<open>convertDocxToHtml\<close> rejects with an error, the process exits
  with status 1, and the calls of \<^verbatim>\<open>console.error\<close> of the whole run are one call with
  \<^verbatim>\<open>Error:\<close> and the message of the error, followed by one call with its stack exactly
  when the \<open>debug\<close> option is set.
\<close>

theorem rejection_reported:
  assumes "result (convertDocxToHtml env fs inputPath outputPath opts) = Rejected err"
  shows "result (convert_and_catch env fs opts inputPath outputPath) = Exited 1
       \<and> errors_of (printed (convert_and_catch env fs opts inputPath outputPath))
           = [''Error:'', message err]
             # (if debug (docxOptions opts) then [[stack err]] else [])"
proof
  show "result (convert_and_catch env fs opts inputPath outputPath) = Exited 1"
    using assms by (simp add: convert_and_catch_def Let_def)
next
  have "printed (convert_and_catch env fs opts inputPath outputPath)
          = printed (convertDocxToHtml env fs inputPath outputPath opts)
            @ catch_handler opts err"
    using assms by (simp add: convert_and_catch_def Let_def)
  then show "errors_of (printed (convert_and_catch env fs opts inputPath outputPath))
           = [''Error:'', message err]
             # (if debug (docxOptions opts) then [[stack err]] else [])"
    by (simp add: errors_of_append convert_prints_no_error catch_handler_def)
qed

theorem rejection_reported_witness:
  "result (convertDocxToHtml
        \<lparr>read_error = (\<lambda>p. \<lparr>message = ''ENOENT'', stack = ''Error: ENOENT''\<rparr>),
         write_error = (\<lambda>p. None),
         renderAsync = (\<lambda>bytes opts.
            Rejected \<lparr>message = ''not a zip file'', stack = ''Error: not a zip file''\<rparr>),
         basename = (\<lambda>p suffix. p),
         JSON_stringify = (\<lambda>opts. ''{}'')\<rparr>
        [''in.docx'' \<mapsto> ''PK'']
        ''in.docx'' ''in.html''
        (initial_options\<lparr>docxOptions := (docxOptions initial_options)\<lparr>debug := True\<rparr>\<rparr>))
     = Rejected \<lparr>message = ''not a zip file'', stack = ''Error: not a zip file''\<rparr>
   \<and> result (convert_and_catch
        \<lparr>read_error = (\<lambda>p. \<lparr>message = ''ENOENT'', stack = ''Error: ENOENT''\<rparr>),
         write_error = (\<lambda>p. None),
         renderAsync = (\<lambda>bytes opts.
            Rejected \<lparr>message = ''not a zip file'', stack = ''Error: not a zip file''\<rparr>),
         basename = (\<lambda>p suffix. p),
         JSON_stringify = (\<lambda>opts. ''{}'')\<rparr>
        [''in.docx'' \<mapsto> ''PK'']
        (initial_options\<lparr>docxOptions := (docxOptions initial_options)\<lparr>debug := True\<rparr>\<rparr>)
        ''in.docx'' ''in.html'')
     = Exited 1
   \<and> errors_of (printed (convert_and_catch
        \<lparr>read_error = (\<lambda>p. \<lparr>message = ''ENOENT'', stack = ''Error: ENOENT''\<rparr>),
         write_error = (\<lambda>p. None),
         renderAsync = (\<lambda>bytes opts.
            Rejected \<lparr>message = ''not a zip file'', stack = ''Error: not a zip file''\<rparr>),
         basename = (\<lambda>p suffix. p),
         JSON_stringify = (\<lambda>opts. ''{}'')\<rparr>
        [''in.docx'' \<mapsto> ''PK'']
        (initial_options\<lparr>docxOptions := (docxOptions initial_options)\<lparr>debug := True\<rparr>\<rparr>)
        ''in.docx'' ''in.html''))
     = [[''Error:'', ''not a zip file''], [''Error: not a zip file'']]"
proof -
  let ?err = "\<lparr>message = ''not a zip file'', stack = ''Error: not a zip file''\<rparr>"
  let ?env =
       "\<lparr>read_error = (\<lambda>p. \<lparr>message = ''ENOENT'', stack = ''Error: ENOENT''\<rparr>),
         write_error = (\<lambda>p. None),
         renderAsync = (\<lambda>bytes opts. Rejected ?err),
         basename = (\<lambda>p suffix. p),
         JSON_stringify = (\<lambda>opts. ''{}'')\<rparr>"
  let ?opts = "initial_options\<lparr>docxOptions := (docxOptions initial_options)\<lparr>debug := True\<rparr>\<rparr>"
  have h: "result (convertDocxToHtml ?env [''in.docx'' \<mapsto> ''PK''] ''in.docx'' ''in.html'' ?opts)
             = Rejected ?err"
    by (simp add: convertDocxToHtml_def Let_def readFileSync_def)
  show ?thesis using h rejection_reported [OF h] by simp
qed

subsection \<open>The output path when none is given\<close>

text \<open>
  C7: when the command line gives no output path, the conversion runs with the output
  path \<open>default_output\<close> of the input path. For an input path that ends in \<^verbatim>\<open>.docx\<close>, in
  any mix of cases, that is the path with its last five characters replaced by
  \<^verbatim>\<open>.html\<close>; for every other input path it is the input path itself, and a conversion
  that completes has then written the page it assembled from the rendered fragments
  over the input file: the file at the input path holds that page, every other file is
  as before.
\<close>

theorem default_output_path:
  "(parseArgs (drop 2 argv) = Return opts \<and> input opts = Some path \<and> path \<noteq> []
      \<and> falsy (output opts) \<longrightarrow>
      main env fs argv =
        convert_and_catch env fs (opts\<lparr>output := Some (default_output path)\<rparr>)
          path (default_output path))
 \<and> (ends_with_docx path \<longrightarrow>
      default_output path = take (length path - 5) path @ ''.html'')
 \<and> (\<not> ends_with_docx path \<longrightarrow> default_output path = path)
 \<and> (parseArgs (drop 2 argv) = Return opts \<and> input opts = Some path \<and> path \<noteq> []
      \<and> falsy (output opts) \<and> \<not> ends_with_docx path
      \<and> result (main env fs argv) = Completed \<longrightarrow>
      (\<exists>bytes styleHTML containerHTML.
          fs path = Some bytes
        \<and> renderAsync env bytes (docxOptions opts) = Resolved (styleHTML, containerHTML)
        \<and> files (main env fs argv)
            = fs(path \<mapsto>
                 (if bodyOnly opts then styleHTML @ [CHR 0x0A] @ containerHTML
                  else html_document (basename env path ''.docx'')
                         styleHTML containerHTML))))"
proof (intro conjI impI)
  assume "parseArgs (drop 2 argv) = Return opts \<and> input opts = Some path \<and> path \<noteq> []
      \<and> falsy (output opts)"
  then show "main env fs argv =
        convert_and_catch env fs (opts\<lparr>output := Some (default_output path)\<rparr>)
          path (default_output path)"
    using main_conversion by blast
next
  assume "ends_with_docx path"
  then show "default_output path = take (length path - 5) path @ ''.html''"
    by (rule default_output_docx)
next
  assume "\<not> ends_with_docx path"
  then show "default_output path = path" by (rule default_output_other)
next
  assume h: "parseArgs (drop 2 argv) = Return opts \<and> input opts = Some path \<and> path \<noteq> []
      \<and> falsy (output opts) \<and> \<not> ends_with_docx path
      \<and> result (main env fs argv) = Completed"
  then have same: "default_output path = path" by (simp add: default_output_other)
  from h have m: "main env fs argv =
      convert_and_catch env fs (opts\<lparr>output := Some path\<rparr>) path path"
    using main_conversion [of argv opts path env fs] same by simp
  define opts' where "opts' = opts\<lparr>output := Some path\<rparr>"
  have same_opts: "docxOptions opts' = docxOptions opts" "bodyOnly opts' = bodyOnly opts"
    by (simp_all add: opts'_def)
  define r where "r = convertDocxToHtml env fs path path opts'"
  from h m have res: "result r = Resolved ()"
    by (auto simp: convert_and_catch_def Let_def r_def opts'_def split: promise.splits)
  from m have fm: "files (main env fs argv) = files r"
    by (simp add: convert_and_catch_def Let_def r_def opts'_def split: promise.splits)
  from convert_resolved_page [of env fs path path opts' "()"] res
  obtain bytes styleHTML containerHTML where
      "fs path = Some bytes"
      "renderAsync env bytes (docxOptions opts') = Resolved (styleHTML, containerHTML)"
      "files r = fs(path \<mapsto>
                 (if bodyOnly opts' then styleHTML @ [CHR 0x0A] @ containerHTML
                  else html_document (basename env path ''.docx'')
                         styleHTML containerHTML))"
    unfolding r_def by blast
  then show "\<exists>bytes styleHTML containerHTML.
          fs path = Some bytes
        \<and> renderAsync env bytes (docxOptions opts) = Resolved (styleHTML, containerHTML)
        \<and> files (main env fs argv)
            = fs(path \<mapsto>
                 (if bodyOnly opts then styleHTML @ [CHR 0x0A] @ containerHTML
                  else html_document (basename env path ''.docx'')
                         styleHTML containerHTML))"
    unfolding fm same_opts by blast
qed

theorem default_output_path_witness:
  "parseArgs (drop 2 [''node'', ''docx-to-html.mjs'', ''memo.doc''])
     = Return (initial_options\<lparr>input := Some ''memo.doc''\<rparr>)
   \<and> input (initial_options\<lparr>input := Some ''memo.doc''\<rparr>) = Some ''memo.doc''
   \<and> ''memo.doc'' \<noteq> []
   \<and> falsy (output (initial_options\<lparr>input := Some ''memo.doc''\<rparr>))
   \<and> \<not> ends_with_docx ''memo.doc''
   \<and> default_output ''memo.doc'' = ''memo.doc''
   \<and> result (main
        \<lparr>read_error = (\<lambda>p. \<lparr>message = ''ENOENT'', stack = ''Error: ENOENT''\<rparr>),
         write_error = (\<lambda>p. None),
         renderAsync = (\<lambda>bytes opts. Resolved (''<style></style>'', ''<p>Hello</p>'')),
         basename = (\<lambda>p suffix. p),
         JSON_stringify = (\<lambda>opts. ''{}'')\<rparr>
        [''memo.doc'' \<mapsto> ''PK'', ''other.txt'' \<mapsto> ''kept'']
        [''node'', ''docx-to-html.mjs'', ''memo.doc'']) = Completed
   \<and> files (main
        \<lparr>read_error = (\<lambda>p. \<lparr>message = ''ENOENT'', stack = ''Error: ENOENT''\<rparr>),
         write_error = (\<lambda>p. None),
         renderAsync = (\<lambda>bytes opts. Resolved (''<style></style>'', ''<p>Hello</p>'')),
         basename = (\<lambda>p suffix. p),
         JSON_stringify = (\<lambda>opts. ''{}'')\<rparr>
        [''memo.doc'' \<mapsto> ''PK'', ''other.txt'' \<mapsto> ''kept'']
        [''node'', ''docx-to-html.mjs'', ''memo.doc''])
      = [''memo.doc'' \<mapsto> ''PK'', ''other.txt'' \<mapsto> ''kept'']
          (''memo.doc'' \<mapsto> html_document ''memo.doc'' ''<style></style>'' ''<p>Hello</p>'')
   \<and> html_document ''memo.doc'' ''<style></style>'' ''<p>Hello</p>'' \<noteq> ''PK''
   \<and> ends_with_docx ''Report.DOCX''
   \<and> default_output ''Report.DOCX'' = ''Report.html''"
proof -
  let ?env =
       "\<lparr>read_error = (\<lambda>p. \<lparr>message = ''ENOENT'', stack = ''Error: ENOENT''\<rparr>),
         write_error = (\<lambda>p. None),
         renderAsync = (\<lambda>bytes opts. Resolved (''<style></style>'', ''<p>Hello</p>'')),
         basename = (\<lambda>p suffix. p),
         JSON_stringify = (\<lambda>opts. ''{}'')\<rparr>"
  let ?fs = "[''memo.doc'' \<mapsto> ''PK'', ''other.txt'' \<mapsto> ''kept'']"
  let ?argv = "[''node'', ''docx-to-html.mjs'', ''memo.doc'']"
  let ?opts = "initial_options\<lparr>input := Some ''memo.doc''\<rparr>"
  have "parseArgs [''memo.doc''] = Return ?opts"
    by (rule parse_one_positional) (simp add: startsWith_def)
  then have h1: "parseArgs (drop 2 ?argv) = Return ?opts" by simp
  have h2: "input ?opts = Some ''memo.doc''" by simp
  have h3: "''memo.doc'' \<noteq> []" by simp
  have h4: "falsy (output ?opts)" by (simp add: falsy_def initial_options_def)
  have h5: "\<not> ends_with_docx ''memo.doc''" by (simp add: ends_with_docx_def)
  have h6: "ends_with_docx ''Report.DOCX''" by (simp add: ends_with_docx_def)
  have body: "\<not> bodyOnly ?opts" by (simp add: initial_options_def)
  note t = default_output_path [of ?argv ?opts "''memo.doc''" ?env ?fs]
  note u = default_output_path [of ?argv ?opts "''Report.DOCX''" ?env ?fs]
  from t h5 have same: "default_output ''memo.doc'' = ''memo.doc''" by blast
  from t h1 h2 h3 h4 have m: "main ?env ?fs ?argv =
      convert_and_catch ?env ?fs (?opts\<lparr>output := Some (default_output ''memo.doc'')\<rparr>)
        ''memo.doc'' (default_output ''memo.doc'')"
    by blast
  have h7: "result (main ?env ?fs ?argv) = Completed"
    unfolding m same
    by (simp add: convert_and_catch_def convertDocxToHtml_def Let_def readFileSync_def
          writeFileSync_def initial_options_def)
  from t h1 h2 h3 h4 h5 h7
  obtain bytes styleHTML containerHTML where
      r: "renderAsync ?env bytes (docxOptions ?opts) = Resolved (styleHTML, containerHTML)"
    and f: "files (main ?env ?fs ?argv)
            = ?fs(''memo.doc'' \<mapsto>
                 (if bodyOnly ?opts then styleHTML @ [CHR 0x0A] @ containerHTML
                  else html_document (basename ?env ''memo.doc'' ''.docx'')
                         styleHTML containerHTML))"
    by blast
  from r have sc: "styleHTML = ''<style></style>''" "containerHTML = ''<p>Hello</p>''"
    by simp_all
  have c: "files (main ?env ?fs ?argv)
      = ?fs(''memo.doc'' \<mapsto> html_document ''memo.doc'' ''<style></style>'' ''<p>Hello</p>'')"
    unfolding f sc using body by simp
  have ne: "html_document ''memo.doc'' ''<style></style>'' ''<p>Hello</p>'' \<noteq> ''PK''"
    by (simp add: html_document_def)
  from u h6 have d: "default_output ''Report.DOCX'' = ''Report.html''" by simp
  from h1 h2 h3 h4 h5 h6 h7 same c ne d show ?thesis by blast
qed

section \<open>Precedence in the style cascade\<close>

lemma merge_all_snoc: "merge_all (layers @ [l]) = merge_all layers ++ l"
  by (simp add: merge_all_def)

lemma chain_last:
  assumes "map_of catalog sid = Some st" and "style_chain catalog seen sid = Some chain"
  shows "\<exists>ancestors. chain = ancestors @ [st]"
  using assms by (subst (asm) style_chain.simps) (auto split: if_splits option.splits)

text \<open>
  C3: let an element refer to a named style that assigns \<open>a\<close> to a property and whose
  parent style assigns \<open>b\<close> to it, and let the cascade resolve (the chain of the style
  has no cycle). If the direct formatting of the element assigns \<open>c\<close> to the property,
  the effective value is \<open>c\<close>; if neither the direct formatting nor the numbering level
  assigns it, the effective value is \<open>a\<close>, not \<open>b\<close>.
\<close>

theorem cascade_precedence:
  assumes "styleName el = Some sid"
    and "map_of catalog sid = Some st" and "assignments st P = Some a"
    and "parent st = Some pid"
    and "map_of catalog pid = Some pst" and "assignments pst P = Some b"
    and "effective_style defaults catalog numberings el = Some eff"
  shows "(direct el P = Some c \<longrightarrow> eff P = Some c)
       \<and> (direct el P = None \<and> numbering_level numberings el P = None \<longrightarrow> eff P = Some a)"
proof -
  from assms(1,7) obtain chain where chain: "style_chain catalog [] sid = Some chain"
    and eff: "eff = defaults (kind el) ++ merge_all (map assignments chain)
                ++ numbering_level numberings el ++ direct el"
    by (auto simp: effective_style_def split: option.splits)
  from chain_last [OF assms(2) chain] obtain ancestors where "chain = ancestors @ [st]" ..
  then have "merge_all (map assignments chain) P = Some a"
    using assms(3) by (simp add: merge_all_snoc)
  then show ?thesis unfolding eff by (auto simp: map_add_def split: option.splits)
qed

theorem cascade_precedence_witness:
  "styleName \<lparr>kind = ''paragraph'', styleName = Some ''Heading1'', numbering = None,
              direct = [''color'' \<mapsto> ''red'']\<rparr> = Some ''Heading1''
   \<and> (\<exists>eff.
        effective_style (\<lambda>k. [''color'' \<mapsto> ''gray''])
          [(''Normal'', \<lparr>target = ''paragraph'', parent = None,
                         assignments = [''color'' \<mapsto> ''black'']\<rparr>),
           (''Heading1'', \<lparr>target = ''paragraph'', parent = Some ''Normal'',
                           assignments = [''color'' \<mapsto> ''blue'']\<rparr>)]
          []
          \<lparr>kind = ''paragraph'', styleName = Some ''Heading1'', numbering = None,
            direct = [''color'' \<mapsto> ''red'']\<rparr> = Some eff
        \<and> eff ''color'' = Some ''red'')
   \<and> (\<exists>eff.
        effective_style (\<lambda>k. [''color'' \<mapsto> ''gray''])
          [(''Normal'', \<lparr>target = ''paragraph'', parent = None,
                         assignments = [''color'' \<mapsto> ''black'']\<rparr>),
           (''Heading1'', \<lparr>target = ''paragraph'', parent = Some ''Normal'',
                           assignments = [''color'' \<mapsto> ''blue'']\<rparr>)]
          []
          \<lparr>kind = ''paragraph'', styleName = Some ''Heading1'', numbering = None,
            direct = Map.empty\<rparr> = Some eff
        \<and> eff ''color'' = Some ''blue'')"
proof -
  let ?normal = "\<lparr>target = ''paragraph'', parent = None,
                  assignments = [''color'' \<mapsto> ''black'']\<rparr>"
  let ?heading = "\<lparr>target = ''paragraph'', parent = Some ''Normal'',
                   assignments = [''color'' \<mapsto> ''blue'']\<rparr>"
  let ?catalog = "[(''Normal'', ?normal), (''Heading1'', ?heading)]"
  let ?defaults = "\<lambda>k::string. [''color'' \<mapsto> ''gray'']"
  let ?el1 = "\<lparr>kind = ''paragraph'', styleName = Some ''Heading1'', numbering = None,
               direct = [''color'' \<mapsto> ''red'']\<rparr>"
  let ?el2 = "\<lparr>kind = ''paragraph'', styleName = Some ''Heading1'', numbering = None,
               direct = (Map.empty :: props)\<rparr>"
  have chain: "style_chain ?catalog [] ''Heading1'' = Some [?normal, ?heading]"
    by (simp add: style_chain.simps)
  obtain eff1 where e1: "effective_style ?defaults ?catalog [] ?el1 = Some eff1"
    by (simp add: effective_style_def chain)
  obtain eff2 where e2: "effective_style ?defaults ?catalog [] ?el2 = Some eff2"
    by (simp add: effective_style_def chain)
  have s1: "styleName ?el1 = Some ''Heading1''" and s2: "styleName ?el2 = Some ''Heading1''"
    by simp_all
  have c1: "map_of ?catalog ''Heading1'' = Some ?heading" by simp
  have c2: "assignments ?heading ''color'' = Some ''blue''" by simp
  have c3: "parent ?heading = Some ''Normal''" by simp
  have c4: "map_of ?catalog ''Normal'' = Some ?normal" by simp
  have c5: "assignments ?normal ''color'' = Some ''black''" by simp
  have d1: "direct ?el1 ''color'' = Some ''red''" by simp
  have d2: "direct ?el2 ''color'' = None \<and> numbering_level [] ?el2 ''color'' = None"
    by (simp add: numbering_level_def)
  from cascade_precedence [OF s1 c1 c2 c3 c4 c5 e1, of "''red''"] d1
  have r1: "eff1 ''color'' = Some ''red''" by blast
  from cascade_precedence [OF s2 c1 c2 c3 c4 c5 e2, of "''red''"] d2
  have r2: "eff2 ''color'' = Some ''blue''" by blast
  from s1 e1 r1 e2 r2 show ?thesis by blast
qed

end
